theory Spec2Isabelle
  imports Main "HOL-Library.Sublist"
begin

section \<open>The access gate: \<open>TokenAuthMiddleware\<close> (auth_middleware.py)\<close>

subsection \<open>Strings and the environment\<close>

text \<open>
  A Python \<open>str\<close> is modelled as a \<open>string\<close>, one \<open>char\<close> per code point, for
  the code points below 256. \<open>isspace\<close> is Python's \<open>str.isspace\<close> on one such
  character: TAB, LF, VT, FF, CR, the separators FS, GS, RS, US, the space, NEL and the
  no-break space. \<open>strip\<close> is \<open>str.strip()\<close> without arguments: it removes the
  whitespace at both ends.
\<close>

definition isspace :: "char \<Rightarrow> bool" where
  "isspace c =
     (let n = (of_char c :: nat)
      in (9 \<le> n \<and> n \<le> 13) \<or> (28 \<le> n \<and> n \<le> 32) \<or> n = 133 \<or> n = 160)"

definition strip :: "string \<Rightarrow> string" where
  "strip s = rev (dropWhile isspace (rev (dropWhile isspace s)))"

text \<open>
  The process environment is a dictionary from names to values; \<open>os.getenv name\<close> is
  the lookup, \<open>None\<close> when the variable is not set.
\<close>

type_synonym environ = "string \<rightharpoonup> string"

subsection \<open>Requests and responses\<close>

text \<open>
  Of a Starlette request the gate reads \<open>request.url.path\<close> and
  \<open>request.headers.get("Authorization")\<close>. The headers are a dictionary keyed by the
  header's name as the code writes it.
\<close>

record Request =
  url_path :: string
  headers :: "string \<rightharpoonup> string"

text \<open>
  What \<open>dispatch\<close> returns is either a response the gate built itself,
  \<open>JSONResponse status_code content\<close> with the content a dictionary written as the
  list of its items, or the value of \<open>await call_next(request)\<close>, which is kept
  apart as \<open>Downstream r\<close> so that forwarding and denying cannot be confused whatever
  the downstream application answers.
\<close>

datatype 'r Response =
    JSONResponse (status_code: nat) (content: "(string \<times> string) list")
  | Downstream 'r

subsection \<open>Construction\<close>

text \<open>
  \<open>__init__\<close> reads \<open>MCP_PROXY_AUTH_TOKEN\<close> once, computes \<open>enabled\<close> and fixes the
  public paths. The two log lines have no effect on the object and are left out.
\<close>

record TokenAuthMiddleware =
  auth_token :: "string option"
  enabled :: bool
  public_paths :: "string set"

definition init :: "environ \<Rightarrow> TokenAuthMiddleware" where
  "init environ =
     (let auth_token = environ ''MCP_PROXY_AUTH_TOKEN''
      in \<lparr> auth_token = auth_token,
           enabled = (case auth_token of
                        None \<Rightarrow> False
                      | Some t \<Rightarrow> length (strip t) > 0),
           public_paths = {''/status''} \<rparr>)"

subsection \<open>Dispatch\<close>

text \<open>
  The checks in the order of the source. \<open>not auth_header\<close> is Python's truth test:
  it holds for \<open>None\<close> (no such header) and for the empty string alike.
  \<open>auth_header[7:]\<close> is \<open>drop 7\<close>, and \<open>token != self.auth_token\<close> compares the
  presented token with the value read from the environment, untrimmed.
\<close>

definition dispatch ::
  "TokenAuthMiddleware \<Rightarrow> Request \<Rightarrow> (Request \<Rightarrow> 'r) \<Rightarrow> 'r Response" where
  "dispatch self request call_next =
     (if \<not> enabled self then Downstream (call_next request)
      else if url_path request \<in> public_paths self then Downstream (call_next request)
      else
        (case headers request ''Authorization'' of
           None \<Rightarrow>
             JSONResponse 401
               [(''error'', ''Missing authorization header''),
                (''message'', ''Include 'Authorization: Bearer <token>' header'')]
         | Some auth_header \<Rightarrow>
             if auth_header = [] then
               JSONResponse 401
                 [(''error'', ''Missing authorization header''),
                  (''message'', ''Include 'Authorization: Bearer <token>' header'')]
             else if \<not> prefix ''Bearer '' auth_header then
               JSONResponse 401
                 [(''error'', ''Invalid authorization format''),
                  (''message'', ''Use 'Bearer <token>' format'')]
             else
               (let token = drop 7 auth_header
                in if Some token \<noteq> auth_token self then
                     JSONResponse 403
                       [(''error'', ''Invalid token''),
                        (''message'', ''The provided token is not valid'')]
                   else Downstream (call_next request))))"

section \<open>The response normalizer: \<open>NonErrorServer\<close> (non_error_server.py)\<close>

subsection \<open>Payloads, responses and exceptions\<close>

text \<open>
  The objects the dispatcher handles are instances of the protocol library's models.
  Two shapes occur: \<open>ErrorData\<close> with its fields \<open>code\<close>, \<open>message\<close> and
  \<open>data\<close>, in this order, and the result models that a \<open>ServerResult\<close> wraps,
  whose content the dispatcher never reads and which is kept as one value. The
  code asks every one of them \<open>hasattr(obj, 'isError')\<close>, so each carries the attribute
  \<open>isError\<close> as an option: \<open>None\<close> when the object has no such attribute,
  \<open>Some b\<close> when it has it with value \<open>b\<close>. \<open>ErrorData(code=c, message=m, data=d)\<close>
  constructs an object without the attribute.
\<close>

type_synonym json = string

datatype model =
    ErrorData int string "json option" (isError: "bool option")
  | Result json (isError: "bool option")

definition hasattr_isError :: "model \<Rightarrow> bool" where
  "hasattr_isError obj = (isError obj \<noteq> None)"

fun set_isError :: "bool \<Rightarrow> model \<Rightarrow> model" where
  "set_isError b (ErrorData c m d _) = ErrorData c m d (Some b)"
| "set_isError b (Result x _) = Result x (Some b)"

text \<open>
  \<open>message.respond\<close> is given either a \<open>ServerResult\<close>, the envelope around its
  root, or an error payload as it is, without envelope.
\<close>

datatype response = ServerResult model | Unwrapped model

text \<open>
  What a handler can raise, by the \<open>except\<close> clause that catches it:
  \<open>McpError err\<close> carries the payload \<open>err.error\<close>; \<open>Exception s\<close> is any other
  exception derived from \<open>Exception\<close>, with \<open>s = str(err)\<close>; \<open>BaseException s\<close> is an
  exception outside that hierarchy (a cancellation, \<open>KeyboardInterrupt\<close>,
  \<open>SystemExit\<close>), which neither clause catches.
\<close>

datatype exn = McpError (error: model) | Exception string | BaseException string

text \<open>
  \<open>types.ServerResult(obj)\<close> constructs the envelope and validates \<open>obj\<close> against
  the result models an envelope may hold. \<open>ErrorData\<close> is not one of them: given an
  \<open>ErrorData\<close> the constructor raises pydantic's \<open>ValidationError\<close>, which derives
  from \<open>ValueError\<close> and so from \<open>Exception\<close>. \<open>ServerResult_root obj\<close> is the
  root of the envelope constructed from \<open>obj\<close>, or the error. The dispatcher makes no
  use of the text of that error, which is abridged.
\<close>

definition validation_error :: exn where
  "validation_error = Exception ''validation errors for ServerResult''"

fun ServerResult_root :: "model \<Rightarrow> exn + model" where
  "ServerResult_root (Result x i) = Inr (Result x i)"
| "ServerResult_root (ErrorData c m d i) = Inl validation_error"

text \<open>
  A handler either returns a \<open>ServerResult\<close>, given by its root, or raises. It runs
  while the request context is bound and may read it.
\<close>

datatype outcome = Returns model | Raises exn

type_synonym session = string

datatype RequestContext = RequestContext string "json option" session json

text \<open>
  Of the request \<open>req\<close> the dispatcher uses its type, the key of the handler table, and
  passes the request itself to the handler.
\<close>

record RequestResponder =
  request_id :: string
  request_meta :: "json option"

record ClientRequest =
  request_type :: string
  params :: json

record Server =
  request_handlers :: "string \<rightharpoonup> (ClientRequest \<Rightarrow> RequestContext option \<Rightarrow> outcome)"

subsection \<open>The state: the context variable and the session\<close>

text \<open>
  \<open>request_ctx\<close> is a context variable: \<open>set\<close> binds a value and returns a token that
  remembers the value before, \<open>reset\<close> restores that value. The state holds the current
  binding and, in order, the calls made on the context variable, of the handler and on
  the session.
\<close>

datatype token = Token (old_value: "RequestContext option")

datatype event =
    CtxSet RequestContext
  | CtxReset token
  | Call ClientRequest
  | Respond response

record state =
  request_ctx :: "RequestContext option"
  events :: "event list"

definition ctx_set :: "RequestContext \<Rightarrow> state \<Rightarrow> token \<times> state" where
  "ctx_set v s =
     (Token (request_ctx s), s\<lparr>request_ctx := Some v, events := events s @ [CtxSet v]\<rparr>)"

definition ctx_reset :: "token \<Rightarrow> state \<Rightarrow> state" where
  "ctx_reset t s = s\<lparr>request_ctx := old_value t, events := events s @ [CtxReset t]\<rparr>"

definition respond :: "RequestResponder \<Rightarrow> response \<Rightarrow> state \<Rightarrow> state" where
  "respond message r s = s\<lparr>events := events s @ [Respond r]\<rparr>"

text \<open>\<open>await handler(req)\<close>: the handler runs once, under the binding of the moment.\<close>

definition call ::
  "(ClientRequest \<Rightarrow> RequestContext option \<Rightarrow> outcome) \<Rightarrow> ClientRequest \<Rightarrow> state
     \<Rightarrow> outcome \<times> state" where
  "call handler req s = (handler req (request_ctx s), s\<lparr>events := events s @ [Call req]\<rparr>)"

subsection \<open>Dispatch of one request\<close>

text \<open>
  \<open>_handle_request\<close>. The result is \<open>Inl err\<close> when the exception \<open>err\<close> leaves the
  function and \<open>Inr ()\<close> when it returns. \<open>result\<close> is what the awaited handler did,
  \<open>body\<close> the outcome of the \<open>try\<close>
  statement with its \<open>except\<close> clauses, \<open>s2\<close> the state after the \<open>finally\<close> clause,
  which runs in either case; \<open>message.respond\<close> is reached only when no exception is
  pending. An exception raised inside an \<open>except\<close> clause, as by the constructor of the
  envelope, is pending in the same way. The constant \<open>types.METHOD_NOT_FOUND\<close> of the protocol library is a
  parameter. The logger calls have no effect on the state and are left out.
\<close>

definition handle_request ::
  "int \<Rightarrow> Server \<Rightarrow> RequestResponder \<Rightarrow> ClientRequest \<Rightarrow> session \<Rightarrow> json \<Rightarrow> bool
     \<Rightarrow> state \<Rightarrow> (exn + unit) \<times> state" where
  "handle_request METHOD_NOT_FOUND self message req session lifespan_context raise_exceptions s =
     (case request_handlers self (request_type req) of
        Some handler \<Rightarrow>
          (let (tok, s1) =
                 ctx_set (RequestContext (request_id message) (request_meta message)
                            session lifespan_context) s;
               token = Some tok;
               (result, s1') = call handler req s1;
               body =
                 (case result of
                    Returns root \<Rightarrow>
                      Inr (ServerResult
                             (if hasattr_isError root \<and> isError root = Some True
                              then set_isError False root else root))
                  | Raises (McpError err) \<Rightarrow>
                      Inr (Unwrapped
                             (if hasattr_isError err then set_isError False err else err))
                  | Raises (Exception str_err) \<Rightarrow>
                      if raise_exceptions then Inl (Exception str_err)
                      else
                        (case ServerResult_root (ErrorData 0 str_err None None) of
                           Inl validation \<Rightarrow> Inl validation
                         | Inr root \<Rightarrow>
                             Inr (ServerResult
                                    (if hasattr_isError root
                                     then set_isError False root else root)))
                  | Raises (BaseException str_err) \<Rightarrow> Inl (BaseException str_err));
               s2 = (case token of None \<Rightarrow> s1' | Some t \<Rightarrow> ctx_reset t s1')
           in (case body of
                 Inl err \<Rightarrow> (Inl err, s2)
               | Inr response \<Rightarrow> (Inr (), respond message response s2)))
      | None \<Rightarrow>
          (Inr (),
           respond message
             (Unwrapped (ErrorData METHOD_NOT_FOUND ''Method not found'' None None)) s))"

subsection \<open>Reading a run\<close>

text \<open>
  The events a run added to a state, the responses and the handler calls among them, and
  the error indicator of a response: the \<open>isError\<close> attribute of the root of an envelope, or of the payload
  itself when there is no envelope.
\<close>

definition new_events :: "state \<Rightarrow> state \<Rightarrow> event list" where
  "new_events s s' = drop (length (events s)) (events s')"

fun sends :: "event list \<Rightarrow> response list" where
  "sends [] = []"
| "sends (Respond r # es) = r # sends es"
| "sends (_ # es) = sends es"


fun indicator :: "response \<Rightarrow> bool option" where
  "indicator (ServerResult r) = isError r"
| "indicator (Unwrapped e) = isError e"

section \<open>Example inputs\<close>

text \<open>
  For the normalizer: a state with nothing bound and one inside another request's
  binding, a responder, a tool call and a ping, a server whose only handler answers tool
  calls with a fixed outcome, and one dispatch on that server (with the JSON-RPC code
  for \<open>METHOD_NOT_FOUND\<close>). For the gate: a downstream application, an environment
  with a secret and one with a blank value, and a request with or without an
  \<open>Authorization\<close> header.
\<close>

definition idle :: state where
  "idle = \<lparr> request_ctx = None, events = [] \<rparr>"

definition nested :: state where
  "nested = \<lparr> request_ctx = Some (RequestContext ''0'' None ''session'' ''lifespan''),
              events = [] \<rparr>"

definition message1 :: RequestResponder where
  "message1 = \<lparr> request_id = ''1'', request_meta = None \<rparr>"

definition call_tool :: ClientRequest where
  "call_tool = \<lparr> request_type = ''CallToolRequest'', params = ''{name: echo}'' \<rparr>"


definition server_with :: "outcome \<Rightarrow> Server" where
  "server_with result =
     \<lparr> request_handlers = [''CallToolRequest'' \<mapsto> (\<lambda>req ctx. result)] \<rparr>"

definition example_run ::
  "outcome \<Rightarrow> ClientRequest \<Rightarrow> bool \<Rightarrow> state \<Rightarrow> (exn + unit) \<times> state" where
  "example_run result req raise_exceptions s =
     handle_request (- 32601) (server_with result) message1 req ''session'' ''lifespan''
       raise_exceptions s"

definition app_ok :: "Request \<Rightarrow> string" where
  "app_ok request = ''ok''"

definition secret_env :: environ where
  "secret_env = [''MCP_PROXY_AUTH_TOKEN'' \<mapsto> ''s3cr3t'']"

definition blank_env :: environ where
  "blank_env = [''MCP_PROXY_AUTH_TOKEN'' \<mapsto> ''   '']"

definition example_request :: "string \<Rightarrow> string option \<Rightarrow> Request" where
  "example_request path authorization =
     \<lparr> url_path = path,
       headers = (case authorization of
                    None \<Rightarrow> Map.empty
                  | Some v \<Rightarrow> [''Authorization'' \<mapsto> v]) \<rparr>"

section \<open>Facts about the access gate\<close>

lemma all_dropWhile: "(\<forall>x \<in> set (dropWhile P s). P x) \<longleftrightarrow> (\<forall>c \<in> set s. P c)"
  by (induction s) auto

lemma strip_Nil_iff: "strip s = [] \<longleftrightarrow> (\<forall>c \<in> set s. isspace c)"
  by (simp add: strip_def all_dropWhile)

lemma strip_Nil: "strip [] = []"
  by (simp add: strip_def)

lemma enabled_init:
  "enabled (init environ) \<longleftrightarrow>
     (\<exists>t. environ ''MCP_PROXY_AUTH_TOKEN'' = Some t \<and> strip t \<noteq> [])"
  by (simp add: init_def Let_def split: option.split)

lemma auth_token_init: "auth_token (init environ) = environ ''MCP_PROXY_AUTH_TOKEN''"
  by (simp add: init_def Let_def)

lemma public_paths_init: "public_paths (init environ) = {''/status''}"
  by (simp add: init_def Let_def)


lemma enabled_secret_env: "enabled (init secret_env)"
  by (simp add: init_def secret_env_def strip_def isspace_def Let_def)

lemma auth_token_secret_env: "auth_token (init secret_env) = Some ''s3cr3t''"
  by (simp add: init_def secret_env_def Let_def)

lemma getenv_secret_env: "secret_env ''MCP_PROXY_AUTH_TOKEN'' = Some ''s3cr3t''"
  by (simp add: secret_env_def)

lemma getenv_blank_env: "blank_env ''MCP_PROXY_AUTH_TOKEN'' = Some ''   ''"
  by (simp add: blank_env_def)

lemma strip_blank: "strip ''   '' = []"
  by (simp add: strip_def isspace_def)

lemma example_request_simps:
  "url_path (example_request path authorization) = path"
  "headers (example_request path None) ''Authorization'' = None"
  "headers (example_request path (Some v)) ''Authorization'' = Some v"
  by (simp_all add: example_request_def)

section \<open>Facts about the response normalizer\<close>

lemma new_events_append [simp]: "new_events s (s\<lparr>events := events s @ xs\<rparr>) = xs"
  by (simp add: new_events_def)

lemma sends_append: "sends (xs @ ys) = sends xs @ sends ys"
  by (induction xs rule: sends.induct) simp_all

lemma handle_request_not_found:
  assumes "request_handlers self (request_type req) = None"
  shows "handle_request mnf self message req session lifespan_context raise_exceptions s =
           (Inr (),
            s\<lparr>events := events s @
               [Respond (Unwrapped (ErrorData mnf ''Method not found'' None None))]\<rparr>)"
  using assms by (simp add: handle_request_def respond_def)

lemma handle_request_found:
  assumes "request_handlers self (request_type req) = Some handler"
  shows "handle_request mnf self message req session lifespan_context raise_exceptions s =
           (let rc = RequestContext (request_id message) (request_meta message)
                       session lifespan_context;
                pre = [CtxSet rc, Call req, CtxReset (Token (request_ctx s))]
            in case handler req (Some rc) of
                 Returns root \<Rightarrow>
                   (Inr (),
                    s\<lparr>events := events s @ pre @
                       [Respond (ServerResult
                          (if isError root = Some True then set_isError False root else root))]\<rparr>)
               | Raises (McpError err) \<Rightarrow>
                   (Inr (),
                    s\<lparr>events := events s @ pre @
                       [Respond (Unwrapped
                          (if isError err = None then err else set_isError False err))]\<rparr>)
               | Raises (Exception str_err) \<Rightarrow>
                   if raise_exceptions
                   then (Inl (Exception str_err), s\<lparr>events := events s @ pre\<rparr>)
                   else (Inl validation_error, s\<lparr>events := events s @ pre\<rparr>)
               | Raises (BaseException str_err) \<Rightarrow>
                   (Inl (BaseException str_err), s\<lparr>events := events s @ pre\<rparr>))"
  using assms
  by (auto simp: handle_request_def ctx_set_def ctx_reset_def call_def respond_def
      hasattr_isError_def Let_def split: outcome.split exn.split)

lemma server_with_call_tool:
  "request_handlers (server_with result) (request_type call_tool) = Some (\<lambda>req ctx. result)"
  by (simp add: server_with_def call_tool_def)


lemma isError_set_isError: "isError (set_isError b obj) = Some b"
  by (cases obj) simp_all

section \<open>The claims about the access gate\<close>

text \<open>
  Claim C1, as the code has it. On a path that is not public, with the gate enabled,
  \<open>dispatch\<close> decides in this order: a header that is absent or empty is refused with
  status 401 and the body "Missing authorization header"; any other header that does
  not start with \<open>Bearer\<close> and one space is refused with status 401 and the body
  "Invalid authorization format"; a header \<open>Bearer t\<close> whose \<open>t\<close> is not the
  secret is refused with status 403 and the body "Invalid token"; a header \<open>Bearer t\<close>
  with \<open>t\<close> the secret is forwarded and the answer of the downstream application is
  returned as it is.
\<close>

theorem C1_dispatch_decision:
  assumes "enabled self" and "url_path request \<notin> public_paths self"
  shows "(headers request ''Authorization'' = None \<or> headers request ''Authorization'' = Some []
            \<longrightarrow> dispatch self request call_next =
                JSONResponse 401
                  [(''error'', ''Missing authorization header''),
                   (''message'', ''Include 'Authorization: Bearer <token>' header'')])
       \<and> (\<forall>h. headers request ''Authorization'' = Some h \<and> h \<noteq> [] \<and> \<not> prefix ''Bearer '' h
            \<longrightarrow> dispatch self request call_next =
                JSONResponse 401
                  [(''error'', ''Invalid authorization format''),
                   (''message'', ''Use 'Bearer <token>' format'')])
       \<and> (\<forall>t. headers request ''Authorization'' = Some (''Bearer '' @ t) \<and> Some t \<noteq> auth_token self
            \<longrightarrow> dispatch self request call_next =
                JSONResponse 403
                  [(''error'', ''Invalid token''),
                   (''message'', ''The provided token is not valid'')])
       \<and> (\<forall>t. headers request ''Authorization'' = Some (''Bearer '' @ t) \<and> Some t = auth_token self
            \<longrightarrow> dispatch self request call_next = Downstream (call_next request))"
  using assms by (auto simp: dispatch_def Let_def)

text \<open>
  The four decisions at the secret \<open>s3cr3t\<close> and the path \<open>/test\<close>: no header, a
  \<open>Basic\<close> header, a wrong token and the right token.
\<close>

theorem C1_dispatch_decision_witness:
  "enabled (init secret_env)
   \<and> ''/test'' \<notin> public_paths (init secret_env)
   \<and> dispatch (init secret_env) (example_request ''/test'' None) app_ok =
         JSONResponse 401
           [(''error'', ''Missing authorization header''),
            (''message'', ''Include 'Authorization: Bearer <token>' header'')]
   \<and> dispatch (init secret_env) (example_request ''/test'' (Some ''Basic s3cr3t'')) app_ok =
         JSONResponse 401
           [(''error'', ''Invalid authorization format''),
            (''message'', ''Use 'Bearer <token>' format'')]
   \<and> dispatch (init secret_env) (example_request ''/test'' (Some ''Bearer wrong'')) app_ok =
         JSONResponse 403
           [(''error'', ''Invalid token''),
            (''message'', ''The provided token is not valid'')]
   \<and> dispatch (init secret_env) (example_request ''/test'' (Some ''Bearer s3cr3t'')) app_ok =
         Downstream ''ok''"
proof -
  have np: "url_path (example_request ''/test'' a) \<notin> public_paths (init secret_env)" for a
    by (simp add: example_request_simps public_paths_init)
  note th = C1_dispatch_decision [OF enabled_secret_env np, where call_next = app_ok]
  have 1: "dispatch (init secret_env) (example_request ''/test'' None) app_ok =
         JSONResponse 401
           [(''error'', ''Missing authorization header''),
            (''message'', ''Include 'Authorization: Bearer <token>' header'')]"
    using th [of None] by (simp add: example_request_simps)
  have 2: "dispatch (init secret_env) (example_request ''/test'' (Some ''Basic s3cr3t'')) app_ok =
         JSONResponse 401
           [(''error'', ''Invalid authorization format''),
            (''message'', ''Use 'Bearer <token>' format'')]"
    using th [of "Some ''Basic s3cr3t''"] by (simp add: example_request_simps)
  have 3: "dispatch (init secret_env) (example_request ''/test'' (Some ''Bearer wrong'')) app_ok =
         JSONResponse 403
           [(''error'', ''Invalid token''),
            (''message'', ''The provided token is not valid'')]"
    using th [of "Some ''Bearer wrong''"]
    by (simp add: example_request_simps auth_token_secret_env)
  have 4: "dispatch (init secret_env) (example_request ''/test'' (Some ''Bearer s3cr3t'')) app_ok =
         Downstream ''ok''"
  proof -
    have "headers (example_request ''/test'' (Some ''Bearer s3cr3t'')) ''Authorization''
            = Some (''Bearer '' @ ''s3cr3t'')
          \<and> Some ''s3cr3t'' = auth_token (init secret_env)"
      by (simp add: example_request_simps auth_token_secret_env)
    with th [of "Some ''Bearer s3cr3t''"] have
      "dispatch (init secret_env) (example_request ''/test'' (Some ''Bearer s3cr3t'')) app_ok
        = Downstream (app_ok (example_request ''/test'' (Some ''Bearer s3cr3t'')))"
      by blast
    then show ?thesis
      by (simp add: app_ok_def)
  qed
  from enabled_secret_env 1 2 3 4 show ?thesis
    by (simp add: public_paths_init)
qed

text \<open>
  Claim C1 as it is written sends every header that is present and does not start with
  \<open>Bearer\<close> and a space to "Invalid authorization format". The empty header is
  present and has no such prefix, and the code answers "Missing authorization header":
  its test is \<open>not auth_header\<close>, which the empty string passes.
\<close>

theorem C1_empty_header_counterexample:
  "enabled (init secret_env)
   \<and> url_path (example_request ''/test'' (Some [])) \<notin> public_paths (init secret_env)
   \<and> headers (example_request ''/test'' (Some [])) ''Authorization'' = Some []
   \<and> \<not> prefix ''Bearer '' []
   \<and> dispatch (init secret_env) (example_request ''/test'' (Some [])) app_ok \<noteq>
         JSONResponse 401
           [(''error'', ''Invalid authorization format''),
            (''message'', ''Use 'Bearer <token>' format'')]
   \<and> dispatch (init secret_env) (example_request ''/test'' (Some [])) app_ok =
         JSONResponse 401
           [(''error'', ''Missing authorization header''),
            (''message'', ''Include 'Authorization: Bearer <token>' header'')]"
  by (simp add: enabled_secret_env public_paths_init example_request_simps dispatch_def)

text \<open>
  Claim C3. When \<open>MCP_PROXY_AUTH_TOKEN\<close> is not set, or is empty once the whitespace
  around it is removed, the gate is not enabled and \<open>dispatch\<close> forwards every
  request, whatever its path and headers; it never answers by itself. The gate is a
  value that \<open>dispatch\<close> only reads, so this holds for every request it ever sees.
\<close>

theorem C3_gate_disabled_without_secret:
  assumes "environ ''MCP_PROXY_AUTH_TOKEN'' = None
           \<or> (\<exists>t. environ ''MCP_PROXY_AUTH_TOKEN'' = Some t \<and> strip t = [])"
  shows "\<not> enabled (init environ)
       \<and> dispatch (init environ) request call_next = Downstream (call_next request)
       \<and> dispatch (init environ) (request\<lparr>headers := h\<rparr>) call_next
           = Downstream (call_next (request\<lparr>headers := h\<rparr>))
       \<and> (\<forall>status body. dispatch (init environ) request call_next \<noteq> JSONResponse status body)"
proof -
  from assms have off: "\<not> enabled (init environ)"
    by (auto simp: enabled_init)
  then show ?thesis
    by (simp add: dispatch_def)
qed

text \<open>The unset variable and the variable of three spaces.\<close>

theorem C3_gate_disabled_without_secret_witness:
  "\<not> enabled (init Map.empty)
   \<and> dispatch (init Map.empty) (example_request ''/test'' None) app_ok = Downstream ''ok''
   \<and> strip ''   '' = []
   \<and> \<not> enabled (init blank_env)
   \<and> dispatch (init blank_env) (example_request ''/test'' None) app_ok = Downstream ''ok''
   \<and> dispatch (init blank_env) (example_request ''/test'' (Some ''Bearer wrong'')) app_ok
         = Downstream ''ok''"
proof -
  have 1: "\<not> enabled (init Map.empty)
           \<and> dispatch (init Map.empty) (example_request ''/test'' None) app_ok = Downstream ''ok''"
    using C3_gate_disabled_without_secret
      [of Map.empty "example_request ''/test'' None" app_ok]
    by (simp add: app_ok_def)
  have 2: "\<not> enabled (init blank_env)
           \<and> dispatch (init blank_env) (example_request ''/test'' None) app_ok = Downstream ''ok''"
    using C3_gate_disabled_without_secret
      [of blank_env "example_request ''/test'' None" app_ok]
    by (simp add: app_ok_def getenv_blank_env strip_blank)
  have 3: "dispatch (init blank_env) (example_request ''/test'' (Some ''Bearer wrong'')) app_ok
           = Downstream ''ok''"
    using C3_gate_disabled_without_secret
      [of blank_env "example_request ''/test'' (Some ''Bearer wrong'')" app_ok]
    by (simp add: app_ok_def getenv_blank_env strip_blank)
  from 1 2 3 strip_blank show ?thesis
    by simp
qed

text \<open>
  Claim C4. A request for the path \<open>/status\<close> is forwarded whatever the environment
  and the headers are, and \<open>/status\<close> is the only public path: on any other path an
  enabled gate forwards exactly the requests that carry \<open>Bearer\<close>, a space and the
  secret.
\<close>

theorem C4_status_is_the_public_path:
  "public_paths (init environ) = {''/status''}
   \<and> (url_path request = ''/status''
        \<longrightarrow> dispatch (init environ) request call_next = Downstream (call_next request))
   \<and> (enabled (init environ) \<and> url_path request \<noteq> ''/status''
        \<longrightarrow> (dispatch (init environ) request call_next = Downstream (call_next request)
             \<longleftrightarrow> (\<exists>t. headers request ''Authorization'' = Some (''Bearer '' @ t)
                      \<and> environ ''MCP_PROXY_AUTH_TOKEN'' = Some t)))"
proof (intro conjI impI)
  show "public_paths (init environ) = {''/status''}"
    by (rule public_paths_init)
next
  assume "url_path request = ''/status''"
  then show "dispatch (init environ) request call_next = Downstream (call_next request)"
    by (simp add: dispatch_def public_paths_init)
next
  assume a: "enabled (init environ) \<and> url_path request \<noteq> ''/status''"
  show "dispatch (init environ) request call_next = Downstream (call_next request)
          \<longleftrightarrow> (\<exists>t. headers request ''Authorization'' = Some (''Bearer '' @ t)
                   \<and> environ ''MCP_PROXY_AUTH_TOKEN'' = Some t)"
  proof (cases "headers request ''Authorization''")
    case None
    with a show ?thesis
      by (simp add: dispatch_def public_paths_init)
  next
    case (Some h)
    show ?thesis
    proof (cases "prefix ''Bearer '' h")
      case True
      then obtain t where h: "h = ''Bearer '' @ t"
        by (auto simp: prefix_def)
      with a Some show ?thesis
        by (simp add: dispatch_def public_paths_init auth_token_init Let_def)
    next
      case False
      then have "\<And>t. h \<noteq> ''Bearer '' @ t"
        by (auto simp: prefix_def)
      with a Some False show ?thesis
        by (simp add: dispatch_def public_paths_init Let_def)
    qed
  qed
qed

text \<open>
  \<open>/status\<close> with and without a secret; \<open>/status/\<close> and \<open>/statu\<close> are not
  exempt.
\<close>

theorem C4_status_is_the_public_path_witness:
  "dispatch (init secret_env) (example_request ''/status'' None) app_ok = Downstream ''ok''
   \<and> dispatch (init Map.empty) (example_request ''/status'' None) app_ok = Downstream ''ok''
   \<and> dispatch (init secret_env) (example_request ''/status/'' None) app_ok \<noteq> Downstream ''ok''
   \<and> dispatch (init secret_env) (example_request ''/statu'' (Some ''Bearer wrong'')) app_ok
         \<noteq> Downstream ''ok''"
proof -
  have 1: "dispatch (init secret_env) (example_request ''/status'' None) app_ok = Downstream ''ok''"
    using C4_status_is_the_public_path [of secret_env "example_request ''/status'' None" app_ok]
    by (simp add: example_request_simps app_ok_def)
  have 2: "dispatch (init Map.empty) (example_request ''/status'' None) app_ok = Downstream ''ok''"
    using C4_status_is_the_public_path [of Map.empty "example_request ''/status'' None" app_ok]
    by (simp add: example_request_simps app_ok_def)
  have 3: "dispatch (init secret_env) (example_request ''/status/'' None) app_ok \<noteq> Downstream ''ok''"
    using C4_status_is_the_public_path [of secret_env "example_request ''/status/'' None" app_ok]
    by (simp add: example_request_simps app_ok_def enabled_secret_env)
  have 4: "dispatch (init secret_env) (example_request ''/statu'' (Some ''Bearer wrong'')) app_ok
         \<noteq> Downstream ''ok''"
    using C4_status_is_the_public_path
      [of secret_env "example_request ''/statu'' (Some ''Bearer wrong'')" app_ok]
    by (simp add: example_request_simps app_ok_def enabled_secret_env getenv_secret_env)
  from 1 2 3 4 show ?thesis
    by simp
qed

text \<open>
  Claim C10. With a secret that is not blank the gate is enabled, and on a path other
  than \<open>/status\<close> the header that is exactly \<open>Bearer\<close> and one space passes the
  format check and is refused with status 403 and the body "Invalid token": the empty
  token is not the secret. It is neither a 401 nor forwarded.
\<close>

theorem C10_empty_bearer_token_is_forbidden:
  assumes "environ ''MCP_PROXY_AUTH_TOKEN'' = Some secret" and "strip secret \<noteq> []"
    and "url_path request \<noteq> ''/status''"
    and "headers request ''Authorization'' = Some ''Bearer ''"
  shows "enabled (init environ)
       \<and> prefix ''Bearer '' ''Bearer ''
       \<and> dispatch (init environ) request call_next =
           JSONResponse 403
             [(''error'', ''Invalid token''),
              (''message'', ''The provided token is not valid'')]
       \<and> status_code (dispatch (init environ) request call_next) \<noteq> 401
       \<and> dispatch (init environ) request call_next \<noteq> Downstream (call_next request)"
proof -
  from assms(1,2) have on: "enabled (init environ)"
    by (simp add: enabled_init)
  from assms(2) have "secret \<noteq> []"
    using strip_Nil by auto
  with assms on have
    "dispatch (init environ) request call_next =
       JSONResponse 403
         [(''error'', ''Invalid token''),
          (''message'', ''The provided token is not valid'')]"
    by (simp add: dispatch_def public_paths_init auth_token_init Let_def)
  with on show ?thesis
    by simp
qed

text \<open>The header \<open>Bearer\<close> and a space at the secret \<open>s3cr3t\<close>.\<close>

theorem C10_empty_bearer_token_is_forbidden_witness:
  "secret_env ''MCP_PROXY_AUTH_TOKEN'' = Some ''s3cr3t''
   \<and> strip ''s3cr3t'' \<noteq> []
   \<and> dispatch (init secret_env) (example_request ''/test'' (Some ''Bearer '')) app_ok =
         JSONResponse 403
           [(''error'', ''Invalid token''),
            (''message'', ''The provided token is not valid'')]"
proof -
  have s: "strip ''s3cr3t'' \<noteq> []"
    by (simp add: strip_def isspace_def)
  with C10_empty_bearer_token_is_forbidden
      [of secret_env "''s3cr3t''" "example_request ''/test'' (Some ''Bearer '')" app_ok]
  show ?thesis
    by (simp add: getenv_secret_env example_request_simps)
qed


section \<open>The claims about the response normalizer\<close>

text \<open>
  Claim C2. Whatever the handler table, the handler's outcome and the mode are, no
  response that a dispatch sends has an error indicator that is true: the indicator is
  false or the object has none. This covers every path that sends: the normal
  completion, the protocol error and the missing handler; the paths on which an
  exception leaves the dispatch send nothing.
\<close>

theorem C2_no_true_indicator_is_sent:
  "\<forall>r \<in> set (sends (new_events s
        (snd (handle_request mnf self message req session lifespan_context raise_exceptions s)))).
     indicator r \<noteq> Some True"
proof (cases "request_handlers self (request_type req)")
  case None
  then show ?thesis
    by (simp add: handle_request_not_found)
next
  case (Some handler)
  show ?thesis
  proof (cases "handler req (Some (RequestContext (request_id message) (request_meta message)
                                     session lifespan_context))")
    case (Returns root)
    with Some show ?thesis
      by (simp add: handle_request_found isError_set_isError Let_def)
  next
    case (Raises err)
    with Some show ?thesis
      by (cases err) (simp_all add: handle_request_found isError_set_isError Let_def)
  qed
qed

text \<open>A tool result flagged as an error leaves with the flag cleared.\<close>

theorem C2_no_true_indicator_is_sent_witness:
  "sends (new_events idle (snd (example_run (Returns (Result ''{code: 7, message: bad input}'' (Some True))) call_tool False idle)))
     = [ServerResult (Result ''{code: 7, message: bad input}'' (Some False))]
   \<and> indicator (ServerResult (Result ''{code: 7, message: bad input}'' (Some False)))
       \<noteq> Some True"
proof -
  have run: "sends (new_events idle (snd (example_run (Returns (Result ''{code: 7, message: bad input}'' (Some True))) call_tool False idle)))
     = [ServerResult (Result ''{code: 7, message: bad input}'' (Some False))]"
    by (simp add: example_run_def handle_request_found [OF server_with_call_tool] idle_def new_events_def)
  from C2_no_true_indicator_is_sent
      [of idle "- 32601"
          "server_with (Returns (Result ''{code: 7, message: bad input}'' (Some True)))"
          message1 call_tool "''session''" "''lifespan''" False]
    run
  show ?thesis
    by (simp add: example_run_def)
qed

text \<open>
  Claim C5, as the code has it. When the handler raises \<open>McpError\<close>, the dispatch
  returns and sends exactly one response: the payload the error carries, without
  envelope, every field as it was, except that an \<open>isError\<close> attribute is set to false
  when the payload has one. A payload without the attribute is sent as it is.
\<close>

theorem C5_mcp_error_payload_is_sent:
  assumes "request_handlers self (request_type req) = Some handler"
    and "handler req (Some (RequestContext (request_id message) (request_meta message)
                              session lifespan_context)) = Raises (McpError err)"
  shows "fst (handle_request mnf self message req session lifespan_context raise_exceptions s)
           = Inr ()
       \<and> sends (new_events s
            (snd (handle_request mnf self message req session lifespan_context raise_exceptions s)))
           = [Unwrapped
                (case err of
                   ErrorData c m d i \<Rightarrow> ErrorData c m d (map_option (\<lambda>_. False) i)
                 | Result x i \<Rightarrow> Result x (map_option (\<lambda>_. False) i))]"
  using assms by (cases err) (auto simp: handle_request_found)

text \<open>A payload that carries a true indicator is sent with the indicator false.\<close>

theorem C5_mcp_error_payload_is_sent_witness:
  "fst (example_run (Raises (McpError (ErrorData 7 ''bad input'' None (Some True)))) call_tool False idle) = Inr ()
   \<and> sends (new_events idle (snd (example_run (Raises (McpError (ErrorData 7 ''bad input'' None (Some True)))) call_tool False idle)))
       = [Unwrapped (ErrorData 7 ''bad input'' None (Some False))]"
  using C5_mcp_error_payload_is_sent
    [where self = "server_with (Raises (McpError (ErrorData 7 ''bad input'' None (Some True))))"
       and req = call_tool
       and handler = "\<lambda>req ctx. Raises (McpError (ErrorData 7 ''bad input'' None (Some True)))"
       and message = message1 and session = "''session''" and lifespan_context = "''lifespan''"
       and err = "ErrorData 7 ''bad input'' None (Some True)"
       and mnf = "- 32601" and raise_exceptions = False and s = idle]
  by (simp add: example_run_def server_with_call_tool)

text \<open>
  Claim C5 as it is written promises an error indicator that is false. An
  \<open>ErrorData\<close> as the library constructs it has no \<open>isError\<close> attribute; the code sets
  the attribute only where \<open>hasattr\<close> finds it, so the response that leaves has no
  indicator at all.
\<close>

theorem C5_payload_without_indicator_counterexample:
  "fst (example_run (Raises (McpError (ErrorData (- 32602) ''Invalid params'' None None))) call_tool False idle) = Inr ()
   \<and> sends (new_events idle (snd (example_run (Raises (McpError (ErrorData (- 32602) ''Invalid params'' None None))) call_tool False idle)))
       = [Unwrapped (ErrorData (- 32602) ''Invalid params'' None None)]
   \<and> indicator (Unwrapped (ErrorData (- 32602) ''Invalid params'' None None)) \<noteq> Some False"
  by (simp add: example_run_def handle_request_found [OF server_with_call_tool] idle_def new_events_def)

text \<open>
  Claim C6, at the code. When the handler raises an exception derived from \<open>Exception\<close>
  that is not an \<open>McpError\<close>: with \<open>raise_exceptions\<close> the exception leaves the
  dispatch and nothing is sent, as the claim has it. Without \<open>raise_exceptions\<close> the
  claim has a payload with code 0 and the text of the exception wrapped in an envelope
  and sent. The code builds that payload, but the constructor of the envelope rejects
  it inside the \<open>except\<close> clause: the validation error leaves the dispatch, and nothing
  is sent.
\<close>

theorem C6_other_exception:
  assumes "request_handlers self (request_type req) = Some handler"
    and "handler req (Some (RequestContext (request_id message) (request_meta message)
                              session lifespan_context)) = Raises (Exception str_err)"
  shows "(raise_exceptions
            \<longrightarrow> fst (handle_request mnf self message req session lifespan_context
                       raise_exceptions s) = Inl (Exception str_err)
                \<and> sends (new_events s
                      (snd (handle_request mnf self message req session lifespan_context
                              raise_exceptions s))) = [])
       \<and> (\<not> raise_exceptions
            \<longrightarrow> fst (handle_request mnf self message req session lifespan_context
                       raise_exceptions s) = Inl validation_error
                \<and> sends (new_events s
                      (snd (handle_request mnf self message req session lifespan_context
                              raise_exceptions s))) = [])"
  using assms by (simp add: handle_request_found)

text \<open>The same failing handler in both modes.\<close>

theorem C6_other_exception_witness:
  "fst (example_run (Raises (Exception ''boom'')) call_tool True idle) = Inl (Exception ''boom'')
   \<and> sends (new_events idle (snd (example_run (Raises (Exception ''boom'')) call_tool True idle)))
       = []
   \<and> fst (example_run (Raises (Exception ''boom'')) call_tool False idle) = Inl validation_error
   \<and> sends (new_events idle (snd (example_run (Raises (Exception ''boom'')) call_tool False idle)))
       = []"
proof -
  have 1: "fst (example_run (Raises (Exception ''boom'')) call_tool True idle)
             = Inl (Exception ''boom'')
           \<and> sends (new_events idle
                 (snd (example_run (Raises (Exception ''boom'')) call_tool True idle))) = []"
    using C6_other_exception
      [where self = "server_with (Raises (Exception ''boom''))" and req = call_tool
       and handler = "\<lambda>req ctx. Raises (Exception ''boom'')"
       and message = message1 and session = "''session''" and lifespan_context = "''lifespan''"
       and mnf = "- 32601" and raise_exceptions = True and s = idle
       and str_err = "''boom''"]
    by (simp add: example_run_def server_with_call_tool)
  have 2: "fst (example_run (Raises (Exception ''boom'')) call_tool False idle)
             = Inl validation_error
           \<and> sends (new_events idle
                 (snd (example_run (Raises (Exception ''boom'')) call_tool False idle))) = []"
    using C6_other_exception
      [where self = "server_with (Raises (Exception ''boom''))" and req = call_tool
       and handler = "\<lambda>req ctx. Raises (Exception ''boom'')"
       and message = message1 and session = "''session''" and lifespan_context = "''lifespan''"
       and mnf = "- 32601" and raise_exceptions = False and s = idle
       and str_err = "''boom''"]
    by (simp add: example_run_def server_with_call_tool)
  from 1 2 show ?thesis
    by simp
qed



text \<open>
  Claim C8. Whenever a handler is found, the dispatch binds the request context, runs
  the handler once under it and resets the binding with the token of the \<open>set\<close>,
  before anything is sent and before it returns or raises: the events of the dispatch
  are the \<open>set\<close>, the call, the \<open>reset\<close> and then the responses, and the binding
  afterwards is the one before. This holds for every outcome of the handler and in
  both modes.
\<close>

theorem C8_binding_released:
  assumes "request_handlers self (request_type req) = Some handler"
  shows "request_ctx
           (snd (handle_request mnf self message req session lifespan_context raise_exceptions s))
           = request_ctx s
       \<and> new_events s
            (snd (handle_request mnf self message req session lifespan_context raise_exceptions s))
           = CtxSet (RequestContext (request_id message) (request_meta message)
                       session lifespan_context)
             # Call req
             # CtxReset (Token (request_ctx s))
             # map Respond (sends (new_events s
                 (snd (handle_request mnf self message req session lifespan_context
                         raise_exceptions s))))"
  using assms
  by (auto simp: handle_request_found Let_def split: outcome.splits exn.splits)

text \<open>
  The re-raise under \<open>raise_exceptions\<close>, started inside another binding, and a normal
  completion.
\<close>

theorem C8_binding_released_witness:
  "request_ctx (snd (example_run (Raises (Exception ''boom'')) call_tool True nested)) = Some (RequestContext ''0'' None ''session'' ''lifespan'')
   \<and> new_events nested (snd (example_run (Raises (Exception ''boom'')) call_tool True nested))
       = [CtxSet (RequestContext ''1'' None ''session'' ''lifespan''),
          Call call_tool,
          CtxReset (Token (Some (RequestContext ''0'' None ''session'' ''lifespan'')))]
   \<and> request_ctx (snd (example_run (Returns (Result ''{}'' None)) call_tool False idle)) = None
   \<and> new_events idle (snd (example_run (Returns (Result ''{}'' None)) call_tool False idle))
       = [CtxSet (RequestContext ''1'' None ''session'' ''lifespan''),
          Call call_tool,
          CtxReset (Token None),
          Respond (ServerResult (Result ''{}'' None))]"
proof -
  have raised: "sends (new_events nested (snd (example_run (Raises (Exception ''boom'')) call_tool True nested))) = []"
    by (simp add: example_run_def handle_request_found [OF server_with_call_tool] nested_def new_events_def)
  have returned: "sends (new_events idle (snd (example_run (Returns (Result ''{}'' None)) call_tool False idle))) = [ServerResult (Result ''{}'' None)]"
    by (simp add: example_run_def handle_request_found [OF server_with_call_tool] idle_def new_events_def)
  from raised
    C8_binding_released
      [where self = "server_with (Raises (Exception ''boom''))" and req = call_tool
         and handler = "\<lambda>req ctx. Raises (Exception ''boom'')"
         and message = message1 and session = "''session''"
         and lifespan_context = "''lifespan''"
         and mnf = "- 32601" and raise_exceptions = True and s = nested,
       OF server_with_call_tool]
  have "request_ctx (snd (example_run (Raises (Exception ''boom'')) call_tool True nested)) = request_ctx nested
   \<and> new_events nested (snd (example_run (Raises (Exception ''boom'')) call_tool True nested))
       = [CtxSet (RequestContext (request_id message1) (request_meta message1)
                    ''session'' ''lifespan''),
          Call call_tool,
          CtxReset (Token (request_ctx nested))]"
    by (simp add: example_run_def)
  then have 1: "request_ctx (snd (example_run (Raises (Exception ''boom'')) call_tool True nested))
       = Some (RequestContext ''0'' None ''session'' ''lifespan'')
   \<and> new_events nested (snd (example_run (Raises (Exception ''boom'')) call_tool True nested))
       = [CtxSet (RequestContext ''1'' None ''session'' ''lifespan''),
          Call call_tool,
          CtxReset (Token (Some (RequestContext ''0'' None ''session'' ''lifespan'')))]"
    by (simp add: example_run_def nested_def message1_def)
  from returned
    C8_binding_released
      [where self = "server_with (Returns (Result ''{}'' None))" and req = call_tool
         and handler = "\<lambda>req ctx. Returns (Result ''{}'' None)"
         and message = message1 and session = "''session''"
         and lifespan_context = "''lifespan''"
         and mnf = "- 32601" and raise_exceptions = False and s = idle,
       OF server_with_call_tool]
  have "request_ctx (snd (example_run (Returns (Result ''{}'' None)) call_tool False idle)) = request_ctx idle
   \<and> new_events idle (snd (example_run (Returns (Result ''{}'' None)) call_tool False idle))
       = [CtxSet (RequestContext (request_id message1) (request_meta message1)
                    ''session'' ''lifespan''),
          Call call_tool,
          CtxReset (Token (request_ctx idle)),
          Respond (ServerResult (Result ''{}'' None))]"
    by (simp add: example_run_def)
  then have 2: "request_ctx (snd (example_run (Returns (Result ''{}'' None)) call_tool False idle)) = None
   \<and> new_events idle (snd (example_run (Returns (Result ''{}'' None)) call_tool False idle))
       = [CtxSet (RequestContext ''1'' None ''session'' ''lifespan''),
          Call call_tool,
          CtxReset (Token None),
          Respond (ServerResult (Result ''{}'' None))]"
    by (simp add: example_run_def idle_def message1_def)
  from 1 2 show ?thesis
    by (simp add: example_run_def)
qed





end
